theory Spec2Isabelle
  imports Complex_Main
begin

section \<open>Values of the JavaScript runtime\<close>

text \<open>
  Strings are lists of code units; the model covers the code units below 256.
  A thrown value is either an instance of \<^verbatim>\<open>Error\<close>, which carries its message, or
  some other value (\<^verbatim>\<open>error instanceof Error\<close> is false for it).
\<close>

datatype thrown = Error string | NonError

text \<open>An optional, nullable property: \<^verbatim>\<open>p?: T | null\<close>.\<close>

datatype 'a nullable = Undefined | Null | Value 'a

text \<open>
  A value of the type \<^verbatim>\<open>number\<close>, by its exact mathematical value. The sources
  only compare such a value with \<^verbatim>\<open>-1\<close> or pass it on.
\<close>

datatype number = Finite rat | NaN | Infinity | NegInfinity

text \<open>
  The result of the built-in conversion \<^verbatim>\<open>Number(s)\<close> of a string. The sources
  return this value and never inspect it, so the conversion is kept symbolic.
\<close>

datatype converted = Number string

definition is_space :: "char \<Rightarrow> bool" where
  "is_space c = (c \<in> set [CHR 0x09, CHR 0x0A, CHR 0x0B, CHR 0x0C, CHR 0x0D, CHR 0x20, CHR 0xA0])"

definition trim :: "string \<Rightarrow> string" where
  "trim s = rev (dropWhile is_space (rev (dropWhile is_space s)))"

definition digit_char :: "nat \<Rightarrow> char" where
  "digit_char d = ''0123456789'' ! d"

fun show_nat :: "nat \<Rightarrow> string" where
  "show_nat n = (if n < 10 then [digit_char n] else show_nat (n div 10) @ [digit_char (n mod 10)])"

declare show_nat.simps [simp del]

text \<open>
  \<^verbatim>\<open>new URLSearchParams({...}).toString()\<close>: the form-urlencoded serialisation
  of the UTF-8 bytes of each name and value, pairs joined by \<^verbatim>\<open>&\<close>.
\<close>

definition hex_digit :: "nat \<Rightarrow> char" where
  "hex_digit d = ''0123456789ABCDEF'' ! d"

definition percent_encode :: "nat \<Rightarrow> string" where
  "percent_encode b = [CHR ''%'', hex_digit (b div 16), hex_digit (b mod 16)]"

definition form_unreserved :: "nat \<Rightarrow> bool" where
  "form_unreserved b =
     ((48 \<le> b \<and> b \<le> 57) \<or> (65 \<le> b \<and> b \<le> 90) \<or> (97 \<le> b \<and> b \<le> 122)
      \<or> b = 42 \<or> b = 45 \<or> b = 46 \<or> b = 95)"

definition form_encode_char :: "char \<Rightarrow> string" where
  "form_encode_char c =
     (let n = (of_char c :: nat)
      in if form_unreserved n then [c]
         else if n = 32 then ''+''
         else if n < 128 then percent_encode n
         else percent_encode (192 + n div 64) @ percent_encode (128 + n mod 64))"

definition form_encode :: "string \<Rightarrow> string" where
  "form_encode s = concat (map form_encode_char s)"

fun join_amp :: "string list \<Rightarrow> string" where
  "join_amp [] = []"
| "join_amp [p] = p"
| "join_amp (p # q # ps) = p @ ''&'' @ join_amp (q # ps)"

definition URLSearchParams_toString :: "(string \<times> string) list \<Rightarrow> string" where
  "URLSearchParams_toString kvs =
     join_amp (map (\<lambda>(k, v). form_encode k @ ''='' @ form_encode v) kvs)"

section \<open>constants.ts\<close>

text \<open>
  \<^verbatim>\<open>LedgerId\<close> of the SDK. The tables below are JavaScript \<^verbatim>\<open>Map\<close>s keyed by
  object identity, so only the static instances \<^verbatim>\<open>LedgerId.TESTNET\<close> and
  \<^verbatim>\<open>LedgerId.MAINNET\<close> are keys; every other instance is \<open>OtherLedger\<close>.
\<close>

datatype LedgerId = MAINNET | TESTNET | PREVIEWNET | LOCAL_NODE | OtherLedger nat

definition LedgerIdToRouterContractID :: "LedgerId \<rightharpoonup> string" where
  "LedgerIdToRouterContractID = map_of [(TESTNET, ''0.0.19264''), (MAINNET, ''0.0.3045981'')]"

definition LedgerIdToWHbarID :: "LedgerId \<rightharpoonup> string" where
  "LedgerIdToWHbarID = map_of [(TESTNET, ''0.0.15058''), (MAINNET, ''0.0.1456986'')]"

definition DEFAULT_SWAP_GAS :: nat where
  "DEFAULT_SWAP_GAS = 400000"

definition DEFAULT_DEADLINE_SECONDS :: int where
  "DEFAULT_DEADLINE_SECONDS = 300"

definition LedgerIdToBaseUrl :: "LedgerId \<rightharpoonup> string" where
  "LedgerIdToBaseUrl = map_of
     [(MAINNET, ''https://mainnet-public.mirrornode.hedera.com/api/v1''),
      (TESTNET, ''https://testnet.mirrornode.hedera.com/api/v1'')]"

section \<open>Data of the tool and of its collaborators\<close>

record MirrorNodeTokenInfo =
  mn_type :: "string option"
  mn_decimals :: "string option"

text \<open>The object \<^verbatim>\<open>{ type?: string; decimals: number }\<close> that the token lookup returns.\<close>

record TokenInfo =
  type' :: "string option"
  decimals :: converted

record RelationshipEntry =
  token_id :: "string nullable"

record MirrorNodeAccountTokensResponse =
  tokens :: "RelationshipEntry list option"
  balances :: "RelationshipEntry list option"

record MirrorNodeAccountResponse =
  max_automatic_token_associations :: "number nullable"

text \<open>
  A \<^verbatim>\<open>fetch\<close> response. \<open>body_text\<close> is \<^verbatim>\<open>await response.text()\<close>; the three
  \<open>json_\<close> fields are \<^verbatim>\<open>(await response.json()) as T\<close> at the three types the
  sources cast the body to. Each of them may reject (\<open>Inl\<close>).
\<close>

record Response =
  ok :: bool
  status :: nat
  body_text :: "thrown + string"
  json_TokenInfo :: "thrown + MirrorNodeTokenInfo"
  json_AccountTokens :: "thrown + MirrorNodeAccountTokensResponse"
  json_Account :: "thrown + MirrorNodeAccountResponse"

record Client =
  ledgerId :: "LedgerId option"

datatype AgentMode = AUTONOMOUS | RETURN_BYTES

record Context =
  mode :: "AgentMode option"
  accountId :: "string option"

record SwapHbarForTokenParams =
  hbarAmount :: number
  tokenId :: string
  recipientAccountId :: "string option"

datatype ContractFunctionParameter =
  Uint256 int | AddressArray "string list" | Address string

text \<open>
  The two transactions the sources build, by the values their setters receive:
  \<open>TokenAssociateTransaction accountId tokenIds memo\<close> and
  \<open>ContractExecuteTransaction contractId gas payableAmount functionName parameters\<close>.
\<close>

datatype Transaction =
  TokenAssociateTransaction string "string list" string
| ContractExecuteTransaction string nat number string "ContractFunctionParameter list"

record RawTransactionResponse =
  tx_status :: string
  transactionId :: string

text \<open>
  What \<^verbatim>\<open>handleTransaction\<close> resolves to: unsigned bytes, or an executed result
  \<^verbatim>\<open>{ raw, humanMessage }\<close>. \<^verbatim>\<open>"raw" in result\<close> holds for the second only.
\<close>

datatype HandlerResult = ReturnBytes string | Executed RawTransactionResponse string

text \<open>
  What \<^verbatim>\<open>execute\<close> resolves to: a bare string, the structured error
  \<^verbatim>\<open>{ raw: { error }, humanMessage }\<close>, or the handler's result.
\<close>

datatype ToolResult = Text string | ErrorResult string string | HandlerOutcome HandlerResult

section \<open>Effects\<close>

text \<open>
  The actions a run performs on its surroundings, in order. \<open>Fetch\<close>,
  \<open>PopulateAccountEvmAddress\<close> and \<open>HandleTransaction\<close> reach the network;
  the two \<open>New\<close> events record the construction of a transaction object.
\<close>

datatype event =
  Fetch string
| PopulateAccountEvmAddress string
| NewTokenAssociateTransaction
| NewContractExecuteTransaction
| HandleTransaction Transaction
| ConsoleError string

fun is_transaction_event :: "event \<Rightarrow> bool" where
  "is_transaction_event NewTokenAssociateTransaction = True"
| "is_transaction_event NewContractExecuteTransaction = True"
| "is_transaction_event (HandleTransaction _) = True"
| "is_transaction_event _ = False"

fun is_swap_event :: "event \<Rightarrow> bool" where
  "is_swap_event NewContractExecuteTransaction = True"
| "is_swap_event (HandleTransaction (ContractExecuteTransaction _ _ _ _ _)) = True"
| "is_swap_event _ = False"

text \<open>
  The collaborators outside the repository, as parameters of a run:
  \<^item> \<open>fetch url\<close>: the platform's \<^verbatim>\<open>fetch\<close>;
  \<^item> \<open>hasTokenSettlesFirst\<close>: which of the two concurrent lookups of
    \<^verbatim>\<open>Promise.all\<close> rejects first when both reject;
  \<^item> \<open>resolveAccount\<close>: \<^verbatim>\<open>AccountResolver.resolveAccount\<close> of the agent kit;
  \<^item> \<open>tokenEvmAddress s\<close>: \<^verbatim>\<open>TokenId.fromString(s).toEvmAddress()\<close>;
  \<^item> \<open>accountIdFromString s\<close>: the exception of \<^verbatim>\<open>AccountId.fromString(s)\<close>, if any;
  \<^item> \<open>populateAccountEvmAddress s client\<close>: the address that
    \<^verbatim>\<open>populateAccountEvmAddress(client)\<close> and \<^verbatim>\<open>toEvmAddress()\<close> give for that account;
  \<^item> \<open>functionParametersError ps\<close>: the exception, if any, that the
    \<^verbatim>\<open>ContractFunctionParameters\<close> builder raises on these arguments;
  \<^item> \<open>settersError tx\<close>: the exception, if any, that the setters of the transaction
    (and \<^verbatim>\<open>new Hbar(hbarAmount)\<close>) raise on these arguments;
  \<^item> \<open>handleTransaction tx client context postProcess\<close>: the agent kit's handler;
  \<^item> \<open>now\<close>: \<^verbatim>\<open>Date.now()\<close>, in milliseconds.
\<close>

record World =
  fetch :: "string \<Rightarrow> thrown + Response"
  hasTokenSettlesFirst :: bool
  resolveAccount :: "string option \<Rightarrow> Context \<Rightarrow> Client \<Rightarrow> thrown + string"
  tokenEvmAddress :: "string \<Rightarrow> thrown + string"
  accountIdFromString :: "string \<Rightarrow> thrown option"
  populateAccountEvmAddress :: "string \<Rightarrow> Client \<Rightarrow> thrown + string"
  functionParametersError :: "ContractFunctionParameter list \<Rightarrow> thrown option"
  settersError :: "Transaction \<Rightarrow> thrown option"
  handleTransaction ::
    "Transaction \<Rightarrow> Client \<Rightarrow> Context \<Rightarrow> (RawTransactionResponse \<Rightarrow> string) option
      \<Rightarrow> thrown + HandlerResult"
  now :: int

text \<open>
  An asynchronous computation: the events it performed, and either the value it resolved
  to (\<open>Inr\<close>) or the value it rejected with (\<open>Inl\<close>).
\<close>

type_synonym 'a io = "event list \<times> (thrown + 'a)"

definition io_return :: "'a \<Rightarrow> 'a io" where
  "io_return x = ([], Inr x)"

definition io_throw :: "thrown \<Rightarrow> 'a io" where
  "io_throw e = ([], Inl e)"

definition io_lift :: "thrown + 'a \<Rightarrow> 'a io" where
  "io_lift r = ([], r)"

definition io_check :: "thrown option \<Rightarrow> unit io" where
  "io_check r = (case r of None \<Rightarrow> ([], Inr ()) | Some e \<Rightarrow> ([], Inl e))"

definition io_call :: "event \<Rightarrow> thrown + 'a \<Rightarrow> 'a io" where
  "io_call ev r = ([ev], r)"

definition io_bind :: "'a io \<Rightarrow> ('a \<Rightarrow> 'b io) \<Rightarrow> 'b io" where
  "io_bind m f =
     (case m of
        (tr, Inl e) \<Rightarrow> (tr, Inl e)
      | (tr, Inr x) \<Rightarrow> (case f x of (tr', r) \<Rightarrow> (tr @ tr', r)))"

text \<open>
  \<^verbatim>\<open>await Promise.all([a, b])\<close> for two lookups that each perform their one
  network call when they are started: both calls are made. It rejects with the first rejection.
\<close>

definition Promise_all2 :: "bool \<Rightarrow> 'a io \<Rightarrow> 'b io \<Rightarrow> ('a \<times> 'b) io" where
  "Promise_all2 firstSettlesFirst a b =
     (fst a @ fst b,
      case (snd a, snd b) of
        (Inr x, Inr y) \<Rightarrow> Inr (x, y)
      | (Inl e, Inr y) \<Rightarrow> Inl e
      | (Inr x, Inl e) \<Rightarrow> Inl e
      | (Inl e1, Inl e2) \<Rightarrow> Inl (if firstSettlesFirst then e1 else e2))"

section \<open>utils.ts\<close>

definition fetchTokenInfoFromMirrorNode :: "World \<Rightarrow> string \<Rightarrow> string \<Rightarrow> TokenInfo io" where
  "fetchTokenInfoFromMirrorNode w baseUrl tokenId' =
     io_bind (io_call (Fetch (baseUrl @ ''/tokens/'' @ tokenId'))
                (fetch w (baseUrl @ ''/tokens/'' @ tokenId'))) (\<lambda>response.
       if \<not> ok response then
         io_bind (io_lift (body_text response)) (\<lambda>t.
           let errorBody = take 200 (trim t);
               errorDetails = (if errorBody = [] then [] else '' '' @ errorBody)
           in io_throw (Error (''Mirror Node token lookup failed ('' @ show_nat (status response)
                                 @ '').'' @ errorDetails)))
       else
         io_bind (io_lift (json_TokenInfo response)) (\<lambda>data.
           case mn_decimals data of
             None \<Rightarrow> io_throw (Error ''Mirror Node token info missing numeric decimals.'')
           | Some d \<Rightarrow>
               if d = [] then io_throw (Error ''Mirror Node token info missing numeric decimals.'')
               else io_return \<lparr>type' = mn_type data, decimals = Number d\<rparr>))"

definition requireClientLedger :: "Client \<Rightarrow> thrown + LedgerId" where
  "requireClientLedger client =
     (case ledgerId client of
        None \<Rightarrow> Inl (Error ''Unable to determine Hedera network from client.'')
      | Some ledger \<Rightarrow> Inr ledger)"

text \<open>
  \<^verbatim>\<open>fetchFromMirrorNode<T>(url)\<close>; \<open>json_as\<close> selects the body at the type \<open>T\<close>.
\<close>

definition fetchFromMirrorNode :: "World \<Rightarrow> (Response \<Rightarrow> thrown + 'a) \<Rightarrow> string \<Rightarrow> 'a io" where
  "fetchFromMirrorNode w json_as url =
     io_bind (io_call (Fetch url) (fetch w url)) (\<lambda>response.
       if \<not> ok response then
         io_bind (io_lift (body_text response)) (\<lambda>t.
           let errorBody = take 200 (trim t);
               errorDetails = (if errorBody = [] then [] else '' '' @ errorBody)
           in io_throw (Error (''Mirror Node request failed ('' @ show_nat (status response)
                                 @ '').'' @ errorDetails)))
       else io_lift (json_as response))"

definition relationships :: "MirrorNodeAccountTokensResponse \<Rightarrow> RelationshipEntry list" where
  "relationships data =
     (case tokens data of
        Some ts \<Rightarrow> ts
      | None \<Rightarrow> (case balances data of Some bs \<Rightarrow> bs | None \<Rightarrow> []))"

definition accountTokensUrl :: "string \<Rightarrow> string \<Rightarrow> string \<Rightarrow> string" where
  "accountTokensUrl baseUrl accountId' tokenId' =
     baseUrl @ ''/accounts/'' @ accountId' @ ''/tokens?''
       @ URLSearchParams_toString [(''token.id'', tokenId'), (''limit'', ''1'')]"

definition mirrorNodeAccountHasToken :: "World \<Rightarrow> string \<Rightarrow> string \<Rightarrow> string \<Rightarrow> bool io" where
  "mirrorNodeAccountHasToken w baseUrl accountId' tokenId' =
     io_bind (fetchFromMirrorNode w json_AccountTokens (accountTokensUrl baseUrl accountId' tokenId'))
       (\<lambda>data. io_return (list_ex (\<lambda>entry. token_id entry = Value tokenId') (relationships data)))"

definition mirrorNodeAccountMaxAutoAssociations :: "World \<Rightarrow> string \<Rightarrow> string \<Rightarrow> number io" where
  "mirrorNodeAccountMaxAutoAssociations w baseUrl accountId' =
     io_bind (fetchFromMirrorNode w json_Account (baseUrl @ ''/accounts/'' @ accountId'))
       (\<lambda>data. io_return
          (case max_automatic_token_associations data of
             Value v \<Rightarrow> v
           | _ \<Rightarrow> Finite 0))"

definition associateTx :: "string \<Rightarrow> string \<Rightarrow> Transaction" where
  "associateTx accountId' tokenId' =
     TokenAssociateTransaction accountId' [tokenId'] ''Auto-associate for SaucerSwap''"

definition associationMessage :: "string \<Rightarrow> string \<Rightarrow> RawTransactionResponse \<Rightarrow> string" where
  "associationMessage tokenId' accountId' response =
     ''Associated token '' @ tokenId' @ '' with account '' @ accountId' @ ''. Status: ''
       @ tx_status response @ ''.''"

definition ensureTokenAssociation ::
  "World \<Rightarrow> Client \<Rightarrow> Context \<Rightarrow> string \<Rightarrow> string \<Rightarrow> unit io" where
  "ensureTokenAssociation w client ctx accountId' tokenId' =
     io_bind (io_lift (requireClientLedger client)) (\<lambda>ledger.
       case LedgerIdToBaseUrl ledger of
         None \<Rightarrow> io_throw (Error ''Unsupported Hedera network for Mirror Node lookup.'')
       | Some mirrorNodeBaseUrl \<Rightarrow>
           if mirrorNodeBaseUrl = []
           then io_throw (Error ''Unsupported Hedera network for Mirror Node lookup.'')
           else
             io_bind (Promise_all2 (hasTokenSettlesFirst w)
                        (mirrorNodeAccountHasToken w mirrorNodeBaseUrl accountId' tokenId')
                        (mirrorNodeAccountMaxAutoAssociations w mirrorNodeBaseUrl accountId'))
               (\<lambda>(isAssociated, maxAutoAssociations).
                 let hasUnlimitedAutoAssociations = (maxAutoAssociations = Finite (- 1))
                 in if isAssociated \<or> hasUnlimitedAutoAssociations then io_return ()
                    else if mode ctx = Some RETURN_BYTES then
                      io_throw (Error ''Recipient account lacks token association. Please associate the token before requesting RETURN_BYTES.'')
                    else
                      io_bind (io_call NewTokenAssociateTransaction
                                 (case settersError w (associateTx accountId' tokenId') of
                                    Some e \<Rightarrow> Inl e
                                  | None \<Rightarrow> Inr (associateTx accountId' tokenId'))) (\<lambda>tx.
                      io_bind (io_call (HandleTransaction tx)
                                 (handleTransaction w tx client ctx
                                    (Some (associationMessage tokenId' accountId'))))
                        (\<lambda>associationResult.
                          case associationResult of
                            Executed raw humanMessage \<Rightarrow>
                              if tx_status raw \<noteq> ''SUCCESS''
                              then io_throw (Error (''Token association failed: '' @ tx_status raw))
                              else io_return ()
                          | ReturnBytes bytes \<Rightarrow>
                              io_throw (Error ''Unexpected RETURN_BYTES result while associating token.'')))))"

definition resolveSwapPath :: "World \<Rightarrow> LedgerId \<Rightarrow> string \<Rightarrow> thrown + string list" where
  "resolveSwapPath w ledger tokenId' =
     (case LedgerIdToWHbarID ledger of
        None \<Rightarrow> Inl (Error ''Unsupported Hedera network for WHBAR mapping.'')
      | Some whbarId \<Rightarrow>
          if whbarId = [] then Inl (Error ''Unsupported Hedera network for WHBAR mapping.'')
          else
            (case tokenEvmAddress w whbarId of
               Inl e \<Rightarrow> Inl e
             | Inr whbarAddress \<Rightarrow>
                 (case tokenEvmAddress w tokenId' of
                    Inl e \<Rightarrow> Inl e
                  | Inr tokenAddress \<Rightarrow> Inr [whbarAddress, tokenAddress])))"

section \<open>swap-hbar-for-token.ts\<close>

definition swapTx :: "string \<Rightarrow> number \<Rightarrow> ContractFunctionParameter list \<Rightarrow> Transaction" where
  "swapTx routerId amount functionParams =
     ContractExecuteTransaction routerId DEFAULT_SWAP_GAS amount ''swapExactETHForTokens'' functionParams"

text \<open>The body of the \<^verbatim>\<open>try\<close> block of \<^verbatim>\<open>execute\<close>.\<close>

definition execute_try :: "World \<Rightarrow> Client \<Rightarrow> Context \<Rightarrow> SwapHbarForTokenParams \<Rightarrow> ToolResult io" where
  "execute_try w client ctx params =
     io_bind (io_lift (requireClientLedger client)) (\<lambda>ledger.
       case LedgerIdToRouterContractID ledger of
         None \<Rightarrow> io_return (Text ''Unsupported Hedera network for SaucerSwap router.'')
       | Some routerId \<Rightarrow>
           if routerId = [] then io_return (Text ''Unsupported Hedera network for SaucerSwap router.'')
           else
             (case LedgerIdToBaseUrl ledger of
                None \<Rightarrow> io_throw (Error ''Unsupported Hedera network for Mirror Node lookup.'')
              | Some mirrorNodeBaseUrl \<Rightarrow>
                  if mirrorNodeBaseUrl = []
                  then io_throw (Error ''Unsupported Hedera network for Mirror Node lookup.'')
                  else
                    io_bind (fetchTokenInfoFromMirrorNode w mirrorNodeBaseUrl (tokenId params))
                      (\<lambda>tokenInfo.
                        if (case type' tokenInfo of
                              None \<Rightarrow> False
                            | Some t \<Rightarrow> t \<noteq> [] \<and> t \<noteq> ''FUNGIBLE_COMMON'')
                        then io_return (Text ''This token is not a Fungible Token'')
                        else
                          io_bind (io_lift (resolveAccount w (recipientAccountId params) ctx client))
                            (\<lambda>recipient.
                          io_bind (ensureTokenAssociation w client ctx recipient (tokenId params))
                            (\<lambda>_.
                          io_bind (io_lift (resolveSwapPath w ledger (tokenId params)))
                            (\<lambda>path.
                          let deadline = now w div 1000 + DEFAULT_DEADLINE_SECONDS in
                          io_bind (io_check (accountIdFromString w recipient))
                            (\<lambda>_.
                          io_bind (io_call (PopulateAccountEvmAddress recipient)
                                     (populateAccountEvmAddress w recipient client))
                            (\<lambda>recipientAccountEvmAddress.
                          let functionParams =
                                [Uint256 0, AddressArray path,
                                 Address recipientAccountEvmAddress, Uint256 deadline] in
                          io_bind (io_check (functionParametersError w functionParams))
                            (\<lambda>_.
                          io_bind (io_call NewContractExecuteTransaction
                                     (case settersError w (swapTx routerId (hbarAmount params) functionParams) of
                                        Some e \<Rightarrow> Inl e
                                      | None \<Rightarrow> Inr (swapTx routerId (hbarAmount params) functionParams)))
                            (\<lambda>tx.
                          io_bind (io_call (HandleTransaction tx)
                                     (handleTransaction w tx client ctx None))
                            (\<lambda>result. io_return (HandlerOutcome result))))))))))))"

text \<open>The \<^verbatim>\<open>catch\<close> clause: the message of the value caught.\<close>

definition catch_message :: "thrown \<Rightarrow> string" where
  "catch_message error =
     (case error of
        Error m \<Rightarrow> m
      | NonError \<Rightarrow> ''Unexpected error during SaucerSwap swap.'')"

definition execute :: "World \<Rightarrow> Client \<Rightarrow> Context \<Rightarrow> SwapHbarForTokenParams \<Rightarrow> event list \<times> ToolResult" where
  "execute w client ctx params =
     (case execute_try w client ctx params of
        (tr, Inr result) \<Rightarrow> (tr, result)
      | (tr, Inl error) \<Rightarrow>
          (tr @ [ConsoleError (catch_message error)],
           ErrorResult (catch_message error) (catch_message error)))"

section \<open>Sample runs\<close>

text \<open>
  A run on the test network in which every collaborator succeeds: the token is fungible,
  the recipient \<open>0.0.7\<close> already holds the token \<open>0.0.5\<close>, and the handler executes
  what it is given. The variations below change one collaborator each.
\<close>

definition sampleResponse :: Response where
  "sampleResponse =
     \<lparr>ok = True, status = 200, body_text = Inr [],
      json_TokenInfo = Inr \<lparr>mn_type = Some ''FUNGIBLE_COMMON'', mn_decimals = Some ''8''\<rparr>,
      json_AccountTokens = Inr \<lparr>tokens = Some [\<lparr>token_id = Value ''0.0.5''\<rparr>], balances = None\<rparr>,
      json_Account = Inr \<lparr>max_automatic_token_associations = Value (Finite 0)\<rparr>\<rparr>"

definition sampleRaw :: RawTransactionResponse where
  "sampleRaw = \<lparr>tx_status = ''SUCCESS'', transactionId = ''0.0.7@1700000000.000000001''\<rparr>"

definition sampleWorld :: World where
  "sampleWorld =
     \<lparr>fetch = (\<lambda>url. Inr sampleResponse),
      hasTokenSettlesFirst = True,
      resolveAccount = (\<lambda>provided c cl.
         case provided of
           Some a \<Rightarrow> Inr a
         | None \<Rightarrow> (case accountId c of
                      Some a \<Rightarrow> Inr a
                    | None \<Rightarrow> Inl (Error ''Either context.accountId or operator account must be provided''))),
      tokenEvmAddress = (\<lambda>s. Inr (''evm:'' @ s)),
      accountIdFromString = (\<lambda>s. None),
      populateAccountEvmAddress = (\<lambda>s cl. Inr (''evm:'' @ s)),
      functionParametersError = (\<lambda>ps. None),
      settersError = (\<lambda>tx. None),
      handleTransaction = (\<lambda>tx cl c postProcess. Inr (Executed sampleRaw ''done'')),
      now = 1700000000123\<rparr>"

definition sampleClient :: Client where
  "sampleClient = \<lparr>ledgerId = Some TESTNET\<rparr>"

definition sampleContext :: Context where
  "sampleContext = \<lparr>mode = Some AUTONOMOUS, accountId = Some ''0.0.7''\<rparr>"

definition sampleParams :: SwapHbarForTokenParams where
  "sampleParams = \<lparr>hbarAmount = Finite 2, tokenId = ''0.0.5'', recipientAccountId = None\<rparr>"

text \<open>The recipient holds no relationship to the token and has no automatic associations.\<close>

definition unassociatedResponse :: Response where
  "unassociatedResponse =
     sampleResponse\<lparr>json_AccountTokens := Inr \<lparr>tokens = Some [], balances = None\<rparr>\<rparr>"

text \<open>The association transaction executes and reports a status other than success.\<close>

definition failedRaw :: RawTransactionResponse where
  "failedRaw = \<lparr>tx_status = ''TOKEN_NOT_FOUND'', transactionId = ''0.0.7@1700000000.000000002''\<rparr>"

definition failingAssociationWorld :: World where
  "failingAssociationWorld =
     sampleWorld\<lparr>fetch := (\<lambda>url. Inr unassociatedResponse),
                  handleTransaction := (\<lambda>tx cl c postProcess. Inr (Executed failedRaw ''failed''))\<rparr>"

text \<open>The token descriptor declares the empty string as its type.\<close>

definition emptyTypeWorld :: World where
  "emptyTypeWorld =
     sampleWorld\<lparr>fetch := (\<lambda>url. Inr (sampleResponse\<lparr>json_TokenInfo :=
        Inr \<lparr>mn_type = Some [], mn_decimals = Some ''8''\<rparr>\<rparr>))\<rparr>"

text \<open>The token descriptor declares a non-fungible type.\<close>

definition nftWorld :: World where
  "nftWorld =
     sampleWorld\<lparr>fetch := (\<lambda>url. Inr (sampleResponse\<lparr>json_TokenInfo :=
        Inr \<lparr>mn_type = Some ''NON_FUNGIBLE_UNIQUE'', mn_decimals = Some ''0''\<rparr>\<rparr>))\<rparr>"

text \<open>The token descriptor carries a decimals field that is not a numeral.\<close>

definition nonNumericDecimalsWorld :: World where
  "nonNumericDecimalsWorld =
     sampleWorld\<lparr>fetch := (\<lambda>url. Inr (sampleResponse\<lparr>json_TokenInfo :=
        Inr \<lparr>mn_type = Some ''FUNGIBLE_COMMON'', mn_decimals = Some ''abc''\<rparr>\<rparr>))\<rparr>"

text \<open>The handler rejects with a value that is not an \<^verbatim>\<open>Error\<close>.\<close>

definition throwingHandlerWorld :: World where
  "throwingHandlerWorld =
     sampleWorld\<lparr>handleTransaction := (\<lambda>tx cl c postProcess. Inl NonError)\<rparr>"

text \<open>
  The SDK rejects the string \<open>abc\<close> as a token id, as \<^verbatim>\<open>TokenId.fromString\<close> does for
  a string that is not of the form \<^verbatim>\<open>shard.realm.num\<close>.
\<close>

definition rejectedTokenIdWorld :: World where
  "rejectedTokenIdWorld =
     sampleWorld\<lparr>tokenEvmAddress := (\<lambda>s.
        if s = ''abc'' then Inl (Error ''failed to parse entity id: abc'')
        else Inr (''evm:'' @ s))\<rparr>"

section \<open>Auxiliary facts\<close>

lemmas io_defs = io_bind_def io_return_def io_throw_def io_lift_def io_check_def io_call_def Promise_all2_def

lemmas url_defs = accountTokensUrl_def URLSearchParams_toString_def
    form_encode_def form_encode_char_def form_unreserved_def percent_encode_def hex_digit_def

lemma fst_fetchFromMirrorNode: "fst (fetchFromMirrorNode w j url) = [Fetch url]"
  by (simp add: fetchFromMirrorNode_def io_defs Let_def split: sum.splits prod.splits)

lemma fst_io_bind_return: "fst (io_bind m (\<lambda>x. io_return (g x))) = fst m"
  by (auto simp: io_bind_def io_return_def split: prod.splits sum.splits)

lemma fst_hasToken: "fst (mirrorNodeAccountHasToken w b a t) = [Fetch (accountTokensUrl b a t)]"
  by (simp add: mirrorNodeAccountHasToken_def fst_io_bind_return fst_fetchFromMirrorNode)

lemma fst_maxAuto: "fst (mirrorNodeAccountMaxAutoAssociations w b a) = [Fetch (b @ ''/accounts/'' @ a)]"
  by (simp add: mirrorNodeAccountMaxAutoAssociations_def fst_io_bind_return fst_fetchFromMirrorNode)

lemma fst_fetchTokenInfo: "fst (fetchTokenInfoFromMirrorNode w b t) = [Fetch (b @ ''/tokens/'' @ t)]"
  by (simp add: fetchTokenInfoFromMirrorNode_def io_defs Let_def split: sum.splits prod.splits option.splits)

lemma baseUrl_nonempty: "LedgerIdToBaseUrl ledger = Some b \<Longrightarrow> b \<noteq> []"
  by (auto simp: LedgerIdToBaseUrl_def split: if_splits)

lemma router_nonempty: "LedgerIdToRouterContractID ledger = Some b \<Longrightarrow> b \<noteq> []"
  by (auto simp: LedgerIdToRouterContractID_def split: if_splits)

lemma whbar_nonempty: "LedgerIdToWHbarID ledger = Some b \<Longrightarrow> b \<noteq> []"
  by (auto simp: LedgerIdToWHbarID_def split: if_splits)

section \<open>The association guard\<close>

lemma hasToken_eq:
  "snd (mirrorNodeAccountHasToken w b a t) = r \<Longrightarrow>
   mirrorNodeAccountHasToken w b a t = ([Fetch (accountTokensUrl b a t)], r)"
  by (simp add: prod_eq_iff fst_hasToken)

lemma maxAuto_eq:
  "snd (mirrorNodeAccountMaxAutoAssociations w b a) = r \<Longrightarrow>
   mirrorNodeAccountMaxAutoAssociations w b a = ([Fetch (b @ ''/accounts/'' @ a)], r)"
  by (simp add: prod_eq_iff fst_maxAuto)

text \<open>
  Claim C2. When both lookups of the association guard answer, and either the relationship
  lookup reports that the account holds the token or the automatic-association ceiling is
  \<open>-1\<close>, \<open>ensureTokenAssociation\<close> returns normally. Its only actions are the two
  lookups: no association transaction is constructed or handed to the handler, whatever
  the other lookup answered.
\<close>

theorem ensureTokenAssociation_no_action_needed:
  assumes "ledgerId client = Some ledger"
    and "LedgerIdToBaseUrl ledger = Some baseUrl"
    and "snd (mirrorNodeAccountHasToken w baseUrl account token) = Inr isAssociated"
    and "snd (mirrorNodeAccountMaxAutoAssociations w baseUrl account) = Inr maxAutoAssociations"
    and "isAssociated \<or> maxAutoAssociations = Finite (- 1)"
  shows "ensureTokenAssociation w client ctx account token =
           ([Fetch (accountTokensUrl baseUrl account token),
             Fetch (baseUrl @ ''/accounts/'' @ account)], Inr ())
         \<and> \<not> list_ex is_transaction_event (fst (ensureTokenAssociation w client ctx account token))"
proof -
  have run: "ensureTokenAssociation w client ctx account token =
           ([Fetch (accountTokensUrl baseUrl account token),
             Fetch (baseUrl @ ''/accounts/'' @ account)], Inr ())"
    using assms(5)
    by (auto simp: ensureTokenAssociation_def requireClientLedger_def assms(1,2)
        baseUrl_nonempty[OF assms(2)] hasToken_eq[OF assms(3)] maxAuto_eq[OF assms(4)] io_defs)
  show ?thesis
    by (simp add: run)
qed

text \<open>
  Claim C3. When the account is not associated, the ceiling is not \<open>-1\<close> and the mode of
  the caller's context is \<open>RETURN_BYTES\<close>, \<open>ensureTokenAssociation\<close> throws the error
  that asks for a prior association (the spec's \<open>AssociationRequiredError\<close>), and no
  association transaction is constructed or handed to the handler.
\<close>

theorem ensureTokenAssociation_return_bytes:
  assumes "ledgerId client = Some ledger"
    and "LedgerIdToBaseUrl ledger = Some baseUrl"
    and "snd (mirrorNodeAccountHasToken w baseUrl account token) = Inr False"
    and "snd (mirrorNodeAccountMaxAutoAssociations w baseUrl account) = Inr maxAutoAssociations"
    and "maxAutoAssociations \<noteq> Finite (- 1)"
    and "mode ctx = Some RETURN_BYTES"
  shows "ensureTokenAssociation w client ctx account token =
           ([Fetch (accountTokensUrl baseUrl account token),
             Fetch (baseUrl @ ''/accounts/'' @ account)],
            Inl (Error ''Recipient account lacks token association. Please associate the token before requesting RETURN_BYTES.''))
         \<and> \<not> list_ex is_transaction_event (fst (ensureTokenAssociation w client ctx account token))"
proof -
  have run: "ensureTokenAssociation w client ctx account token =
           ([Fetch (accountTokensUrl baseUrl account token),
             Fetch (baseUrl @ ''/accounts/'' @ account)],
            Inl (Error ''Recipient account lacks token association. Please associate the token before requesting RETURN_BYTES.''))"
    by (simp add: ensureTokenAssociation_def requireClientLedger_def assms(1,2,5,6)
        baseUrl_nonempty[OF assms(2)] hasToken_eq[OF assms(3)] maxAuto_eq[OF assms(4)] io_defs)
  show ?thesis
    by (simp add: run)
qed

lemma ensureTokenAssociation_failed_status:
  assumes "ledgerId client = Some ledger"
    and "LedgerIdToBaseUrl ledger = Some baseUrl"
    and "snd (mirrorNodeAccountHasToken w baseUrl account token) = Inr False"
    and "snd (mirrorNodeAccountMaxAutoAssociations w baseUrl account) = Inr maxAutoAssociations"
    and "maxAutoAssociations \<noteq> Finite (- 1)"
    and "mode ctx \<noteq> Some RETURN_BYTES"
    and "settersError w (associateTx account token) = None"
    and "handleTransaction w (associateTx account token) client ctx
           (Some (associationMessage token account)) = Inr (Executed raw humanMessage)"
    and "tx_status raw \<noteq> ''SUCCESS''"
  shows "ensureTokenAssociation w client ctx account token =
           ([Fetch (accountTokensUrl baseUrl account token),
             Fetch (baseUrl @ ''/accounts/'' @ account),
             NewTokenAssociateTransaction,
             HandleTransaction (associateTx account token)],
            Inl (Error (''Token association failed: '' @ tx_status raw)))"
  by (simp add: ensureTokenAssociation_def requireClientLedger_def assms(1,2,5,6,7,8,9)
        baseUrl_nonempty[OF assms(2)] hasToken_eq[OF assms(3)] maxAuto_eq[OF assms(4)] io_defs)

lemmas sample_defs = sampleWorld_def sampleClient_def sampleContext_def sampleParams_def
  sampleResponse_def sampleRaw_def

lemmas lookup_defs = mirrorNodeAccountHasToken_def mirrorNodeAccountMaxAutoAssociations_def
  fetchFromMirrorNode_def relationships_def

theorem ensureTokenAssociation_no_action_needed_witness:
  "ensureTokenAssociation sampleWorld sampleClient sampleContext ''0.0.7'' ''0.0.5'' =
     ([Fetch (accountTokensUrl ''https://testnet.mirrornode.hedera.com/api/v1'' ''0.0.7'' ''0.0.5''),
       Fetch (''https://testnet.mirrornode.hedera.com/api/v1'' @ ''/accounts/'' @ ''0.0.7'')], Inr ())
   \<and> \<not> list_ex is_transaction_event
         (fst (ensureTokenAssociation sampleWorld sampleClient sampleContext ''0.0.7'' ''0.0.5''))
   \<and> ensureTokenAssociation
        (sampleWorld\<lparr>fetch := (\<lambda>url. Inr (unassociatedResponse\<lparr>json_Account :=
            Inr \<lparr>max_automatic_token_associations = Value (Finite (- 1))\<rparr>\<rparr>))\<rparr>)
        sampleClient sampleContext ''0.0.7'' ''0.0.5'' =
     ([Fetch (accountTokensUrl ''https://testnet.mirrornode.hedera.com/api/v1'' ''0.0.7'' ''0.0.5''),
       Fetch (''https://testnet.mirrornode.hedera.com/api/v1'' @ ''/accounts/'' @ ''0.0.7'')], Inr ())"
proof -
  have a: "ledgerId sampleClient = Some TESTNET"
    by (simp add: sampleClient_def)
  have b: "LedgerIdToBaseUrl TESTNET = Some ''https://testnet.mirrornode.hedera.com/api/v1''"
    by (simp add: LedgerIdToBaseUrl_def)
  have c: "snd (mirrorNodeAccountHasToken sampleWorld
                  ''https://testnet.mirrornode.hedera.com/api/v1'' ''0.0.7'' ''0.0.5'') = Inr True"
    by (simp add: lookup_defs sample_defs io_defs)
  have d: "snd (mirrorNodeAccountMaxAutoAssociations sampleWorld
                  ''https://testnet.mirrornode.hedera.com/api/v1'' ''0.0.7'') = Inr (Finite 0)"
    by (simp add: lookup_defs sample_defs io_defs)
  have c': "snd (mirrorNodeAccountHasToken
                  (sampleWorld\<lparr>fetch := (\<lambda>url. Inr (unassociatedResponse\<lparr>json_Account :=
                     Inr \<lparr>max_automatic_token_associations = Value (Finite (- 1))\<rparr>\<rparr>))\<rparr>)
                  ''https://testnet.mirrornode.hedera.com/api/v1'' ''0.0.7'' ''0.0.5'') = Inr False"
    by (simp add: lookup_defs sample_defs unassociatedResponse_def io_defs)
  have d': "snd (mirrorNodeAccountMaxAutoAssociations
                  (sampleWorld\<lparr>fetch := (\<lambda>url. Inr (unassociatedResponse\<lparr>json_Account :=
                     Inr \<lparr>max_automatic_token_associations = Value (Finite (- 1))\<rparr>\<rparr>))\<rparr>)
                  ''https://testnet.mirrornode.hedera.com/api/v1'' ''0.0.7'') = Inr (Finite (- 1))"
    by (simp add: lookup_defs sample_defs unassociatedResponse_def io_defs)
  show ?thesis
    using ensureTokenAssociation_no_action_needed [OF a b c d, of sampleContext]
      ensureTokenAssociation_no_action_needed [OF a b c' d', of sampleContext]
    by simp
qed

theorem ensureTokenAssociation_return_bytes_witness:
  "ensureTokenAssociation failingAssociationWorld sampleClient
      (sampleContext\<lparr>mode := Some RETURN_BYTES\<rparr>) ''0.0.7'' ''0.0.5'' =
     ([Fetch (accountTokensUrl ''https://testnet.mirrornode.hedera.com/api/v1'' ''0.0.7'' ''0.0.5''),
       Fetch (''https://testnet.mirrornode.hedera.com/api/v1'' @ ''/accounts/'' @ ''0.0.7'')],
      Inl (Error ''Recipient account lacks token association. Please associate the token before requesting RETURN_BYTES.''))
   \<and> \<not> list_ex is_transaction_event
         (fst (ensureTokenAssociation failingAssociationWorld sampleClient
                 (sampleContext\<lparr>mode := Some RETURN_BYTES\<rparr>) ''0.0.7'' ''0.0.5''))"
proof -
  have a: "ledgerId sampleClient = Some TESTNET"
    by (simp add: sampleClient_def)
  have b: "LedgerIdToBaseUrl TESTNET = Some ''https://testnet.mirrornode.hedera.com/api/v1''"
    by (simp add: LedgerIdToBaseUrl_def)
  have c: "snd (mirrorNodeAccountHasToken failingAssociationWorld
                  ''https://testnet.mirrornode.hedera.com/api/v1'' ''0.0.7'' ''0.0.5'') = Inr False"
    by (simp add: lookup_defs sample_defs failingAssociationWorld_def unassociatedResponse_def io_defs)
  have d: "snd (mirrorNodeAccountMaxAutoAssociations failingAssociationWorld
                  ''https://testnet.mirrornode.hedera.com/api/v1'' ''0.0.7'') = Inr (Finite 0)"
    by (simp add: lookup_defs sample_defs failingAssociationWorld_def unassociatedResponse_def io_defs)
  have e: "Finite 0 \<noteq> Finite (- 1)"
    by simp
  have f: "mode (sampleContext\<lparr>mode := Some RETURN_BYTES\<rparr>) = Some RETURN_BYTES"
    by simp
  show ?thesis
    using ensureTokenAssociation_return_bytes [OF a b c d e f]
    by simp
qed

section \<open>The relationship lookup and the swap path\<close>



text \<open>
  Claim C8, as amended. The networks with a wrapped-native token are the test and the main
  network. For such a network and a token id that the SDK converts, \<open>resolveSwapPath\<close>
  returns exactly two addresses, the first being the address of the network's configured
  wrapped-native token; for a token id that the SDK rejects it fails with the SDK's error.
  For a network with no configured token it fails with the error of the WHBAR mapping (the
  spec's \<open>UnsupportedNetworkError\<close>). It performs no action, and its result depends on
  nothing but the network, the token id and the SDK's address conversion.
\<close>

theorem resolveSwapPath_two_addresses:
  "(LedgerIdToWHbarID ledger = None) = (ledger \<noteq> TESTNET \<and> ledger \<noteq> MAINNET)
   \<and> (\<forall>whbarId whbarAddress tokenAddress.
         LedgerIdToWHbarID ledger = Some whbarId \<longrightarrow>
         tokenEvmAddress w whbarId = Inr whbarAddress \<longrightarrow>
         tokenEvmAddress w token = Inr tokenAddress \<longrightarrow>
         resolveSwapPath w ledger token = Inr [whbarAddress, tokenAddress])
   \<and> (\<forall>whbarId whbarAddress e.
         LedgerIdToWHbarID ledger = Some whbarId \<longrightarrow>
         tokenEvmAddress w whbarId = Inr whbarAddress \<longrightarrow>
         tokenEvmAddress w token = Inl e \<longrightarrow>
         resolveSwapPath w ledger token = Inl e)
   \<and> (LedgerIdToWHbarID ledger = None \<longrightarrow>
         resolveSwapPath w ledger token = Inl (Error ''Unsupported Hedera network for WHBAR mapping.''))
   \<and> (\<forall>w'. tokenEvmAddress w' = tokenEvmAddress w \<longrightarrow>
         resolveSwapPath w' ledger token = resolveSwapPath w ledger token)"
proof -
  have dom: "(LedgerIdToWHbarID ledger = None) = (ledger \<noteq> TESTNET \<and> ledger \<noteq> MAINNET)"
    by (simp add: LedgerIdToWHbarID_def)
  have path: "resolveSwapPath w ledger token = Inr [whbarAddress, tokenAddress]"
    if "LedgerIdToWHbarID ledger = Some whbarId" "tokenEvmAddress w whbarId = Inr whbarAddress"
      "tokenEvmAddress w token = Inr tokenAddress" for whbarId whbarAddress tokenAddress
    using that whbar_nonempty[OF that(1)] by (simp add: resolveSwapPath_def)
  have rejected: "resolveSwapPath w ledger token = Inl e"
    if "LedgerIdToWHbarID ledger = Some whbarId" "tokenEvmAddress w whbarId = Inr whbarAddress"
      "tokenEvmAddress w token = Inl e" for whbarId whbarAddress e
    using that whbar_nonempty[OF that(1)] by (simp add: resolveSwapPath_def)
  have unsupported: "resolveSwapPath w ledger token = Inl (Error ''Unsupported Hedera network for WHBAR mapping.'')"
    if "LedgerIdToWHbarID ledger = None"
    using that by (simp add: resolveSwapPath_def)
  have pure: "resolveSwapPath w' ledger token = resolveSwapPath w ledger token"
    if "tokenEvmAddress w' = tokenEvmAddress w" for w'
    by (simp only: resolveSwapPath_def that)
  show ?thesis
    using dom path rejected unsupported pure by blast
qed

theorem resolveSwapPath_two_addresses_witness:
  "resolveSwapPath sampleWorld TESTNET ''0.0.5'' = Inr [''evm:0.0.15058'', ''evm:0.0.5'']
   \<and> resolveSwapPath sampleWorld MAINNET ''0.0.5'' = Inr [''evm:0.0.1456986'', ''evm:0.0.5'']
   \<and> resolveSwapPath rejectedTokenIdWorld MAINNET ''abc'' =
       Inl (Error ''failed to parse entity id: abc'')
   \<and> resolveSwapPath sampleWorld PREVIEWNET ''0.0.5'' =
       Inl (Error ''Unsupported Hedera network for WHBAR mapping.'')
   \<and> resolveSwapPath throwingHandlerWorld TESTNET ''0.0.5'' = resolveSwapPath sampleWorld TESTNET ''0.0.5''"
  using resolveSwapPath_two_addresses [of TESTNET sampleWorld "''0.0.5''"]
    resolveSwapPath_two_addresses [of MAINNET sampleWorld "''0.0.5''"]
    resolveSwapPath_two_addresses [of MAINNET rejectedTokenIdWorld "''abc''"]
    resolveSwapPath_two_addresses [of PREVIEWNET sampleWorld "''0.0.5''"]
  by (simp add: LedgerIdToWHbarID_def sampleWorld_def throwingHandlerWorld_def rejectedTokenIdWorld_def)

text \<open>
  The claim as stated fails for a string that is not a token id: on the test network, which
  has a configured wrapped-native token, \<open>resolveSwapPath\<close> on \<open>abc\<close> returns no
  addresses but fails with the error of the SDK's parser.
\<close>

theorem rejected_token_id_counterexample:
  "LedgerIdToWHbarID TESTNET = Some ''0.0.15058''
   \<and> tokenEvmAddress rejectedTokenIdWorld ''0.0.15058'' = Inr ''evm:0.0.15058''
   \<and> tokenEvmAddress rejectedTokenIdWorld ''abc'' = Inl (Error ''failed to parse entity id: abc'')
   \<and> resolveSwapPath rejectedTokenIdWorld TESTNET ''abc'' =
       Inl (Error ''failed to parse entity id: abc'')
   \<and> resolveSwapPath rejectedTokenIdWorld TESTNET ''abc'' \<noteq> Inr [''evm:0.0.15058'', ''evm:abc'']"
  by (simp add: resolveSwapPath_def LedgerIdToWHbarID_def rejectedTokenIdWorld_def sampleWorld_def)

section \<open>The swap tool\<close>

lemma router_of_baseUrl:
  "LedgerIdToBaseUrl ledger = Some b \<Longrightarrow> \<exists>r. LedgerIdToRouterContractID ledger = Some r \<and> r \<noteq> []"
  by (auto simp: LedgerIdToBaseUrl_def LedgerIdToRouterContractID_def split: if_splits)

lemma execute_try_after_guard:
  assumes "ledgerId client = Some ledger"
    and "LedgerIdToRouterContractID ledger = Some routerId"
    and "LedgerIdToBaseUrl ledger = Some baseUrl"
    and "fetchTokenInfoFromMirrorNode w baseUrl (tokenId params) = (lookup, Inr tokenInfo)"
    and "type' tokenInfo = None \<or> type' tokenInfo = Some ''FUNGIBLE_COMMON''"
    and "resolveAccount w (recipientAccountId params) ctx client = Inr recipient"
    and "ensureTokenAssociation w client ctx recipient (tokenId params) = (guard, Inl e)"
  shows "execute_try w client ctx params = (lookup @ guard, Inl e)"
  using assms(5)
  by (auto simp: execute_try_def requireClientLedger_def assms(1,2,3,4,6,7)
      router_nonempty[OF assms(2)] baseUrl_nonempty[OF assms(3)] io_defs)

text \<open>
  Claim C1. On the success path of the swap tool (supported network, token lookup passed,
  recipient resolved, association guard passed, every collaborator succeeded), the
  transaction handed to the handler targets the router, has gas \<open>400000\<close>, the requested
  \<open>hbarAmount\<close> as payable amount, the function \<open>swapExactETHForTokens\<close> and the
  parameters, in order, \<open>0\<close>, the swap path, the recipient's EVM address and the deadline
  \<open>floor(now / 1000) + 300\<close>; the tool returns the handler's result unchanged.
\<close>

theorem execute_success_path:
  assumes "ledgerId client = Some ledger"
    and "LedgerIdToRouterContractID ledger = Some routerId"
    and "LedgerIdToBaseUrl ledger = Some baseUrl"
    and "fetchTokenInfoFromMirrorNode w baseUrl (tokenId params) = (lookup, Inr tokenInfo)"
    and "type' tokenInfo = None \<or> type' tokenInfo = Some ''FUNGIBLE_COMMON''"
    and "resolveAccount w (recipientAccountId params) ctx client = Inr recipient"
    and "ensureTokenAssociation w client ctx recipient (tokenId params) = (guard, Inr ())"
    and "resolveSwapPath w ledger (tokenId params) = Inr path"
    and "accountIdFromString w recipient = None"
    and "populateAccountEvmAddress w recipient client = Inr recipientAddress"
    and "functionParametersError w
           [Uint256 0, AddressArray path, Address recipientAddress,
            Uint256 (now w div 1000 + 300)] = None"
    and "settersError w
           (ContractExecuteTransaction routerId 400000 (hbarAmount params) ''swapExactETHForTokens''
              [Uint256 0, AddressArray path, Address recipientAddress,
               Uint256 (now w div 1000 + 300)]) = None"
    and "handleTransaction w
           (ContractExecuteTransaction routerId 400000 (hbarAmount params) ''swapExactETHForTokens''
              [Uint256 0, AddressArray path, Address recipientAddress,
               Uint256 (now w div 1000 + 300)]) client ctx None = Inr result"
  shows "execute w client ctx params =
           (lookup @ guard @
              [PopulateAccountEvmAddress recipient,
               NewContractExecuteTransaction,
               HandleTransaction
                 (ContractExecuteTransaction routerId 400000 (hbarAmount params) ''swapExactETHForTokens''
                    [Uint256 0, AddressArray path, Address recipientAddress,
                     Uint256 (now w div 1000 + 300)])],
            HandlerOutcome result)"
  using assms(5)
  by (auto simp: execute_def execute_try_def requireClientLedger_def assms(1,2,3,4,6,7,8,9,10,11,12,13)
      router_nonempty[OF assms(2)] baseUrl_nonempty[OF assms(3)] io_defs
      swapTx_def DEFAULT_SWAP_GAS_def DEFAULT_DEADLINE_SECONDS_def)

lemmas run_defs = execute_def execute_try_def fetchTokenInfoFromMirrorNode_def resolveSwapPath_def
  ensureTokenAssociation_def requireClientLedger_def lookup_defs url_defs io_defs
  LedgerIdToWHbarID_def LedgerIdToRouterContractID_def LedgerIdToBaseUrl_def
  swapTx_def associateTx_def associationMessage_def DEFAULT_SWAP_GAS_def DEFAULT_DEADLINE_SECONDS_def

theorem execute_success_path_witness:
  "execute sampleWorld sampleClient sampleContext sampleParams =
     ([Fetch ''https://testnet.mirrornode.hedera.com/api/v1/tokens/0.0.5''] @
      [Fetch ''https://testnet.mirrornode.hedera.com/api/v1/accounts/0.0.7/tokens?token.id=0.0.5&limit=1'',
       Fetch ''https://testnet.mirrornode.hedera.com/api/v1/accounts/0.0.7''] @
      [PopulateAccountEvmAddress ''0.0.7'',
       NewContractExecuteTransaction,
       HandleTransaction
         (ContractExecuteTransaction ''0.0.19264'' 400000 (Finite 2) ''swapExactETHForTokens''
            [Uint256 0, AddressArray [''evm:0.0.15058'', ''evm:0.0.5''], Address ''evm:0.0.7'',
             Uint256 1700000300])],
      HandlerOutcome (Executed sampleRaw ''done''))"
proof -
  have a: "ledgerId sampleClient = Some TESTNET"
    by (simp add: sampleClient_def)
  have b: "LedgerIdToRouterContractID TESTNET = Some ''0.0.19264''"
    by (simp add: LedgerIdToRouterContractID_def)
  have c: "LedgerIdToBaseUrl TESTNET = Some ''https://testnet.mirrornode.hedera.com/api/v1''"
    by (simp add: LedgerIdToBaseUrl_def)
  have d: "fetchTokenInfoFromMirrorNode sampleWorld ''https://testnet.mirrornode.hedera.com/api/v1''
             (tokenId sampleParams) =
           ([Fetch ''https://testnet.mirrornode.hedera.com/api/v1/tokens/0.0.5''],
            Inr \<lparr>type' = Some ''FUNGIBLE_COMMON'', decimals = Number ''8''\<rparr>)"
    by (simp add: fetchTokenInfoFromMirrorNode_def sample_defs io_defs)
  have e: "type' \<lparr>type' = Some ''FUNGIBLE_COMMON'', decimals = Number ''8''\<rparr> = None
           \<or> type' \<lparr>type' = Some ''FUNGIBLE_COMMON'', decimals = Number ''8''\<rparr> = Some ''FUNGIBLE_COMMON''"
    by simp
  have f: "resolveAccount sampleWorld (recipientAccountId sampleParams) sampleContext sampleClient
           = Inr ''0.0.7''"
    by (simp add: sample_defs)
  have g: "ensureTokenAssociation sampleWorld sampleClient sampleContext ''0.0.7'' (tokenId sampleParams) =
           ([Fetch ''https://testnet.mirrornode.hedera.com/api/v1/accounts/0.0.7/tokens?token.id=0.0.5&limit=1'',
             Fetch ''https://testnet.mirrornode.hedera.com/api/v1/accounts/0.0.7''], Inr ())"
    by (simp add: ensureTokenAssociation_def requireClientLedger_def LedgerIdToBaseUrl_def
        lookup_defs url_defs sample_defs io_defs)
  have h: "resolveSwapPath sampleWorld TESTNET (tokenId sampleParams) = Inr [''evm:0.0.15058'', ''evm:0.0.5'']"
    by (simp add: resolveSwapPath_def LedgerIdToWHbarID_def sample_defs)
  have i: "accountIdFromString sampleWorld ''0.0.7'' = None"
    by (simp add: sample_defs)
  have j: "populateAccountEvmAddress sampleWorld ''0.0.7'' sampleClient = Inr ''evm:0.0.7''"
    by (simp add: sample_defs)
  have k: "functionParametersError sampleWorld ps = None" for ps
    by (simp add: sample_defs)
  have l: "settersError sampleWorld tx = None" for tx
    by (simp add: sample_defs)
  have m: "handleTransaction sampleWorld tx sampleClient sampleContext None = Inr (Executed sampleRaw ''done'')" for tx
    by (simp add: sampleWorld_def)
  have n: "now sampleWorld div 1000 + 300 = 1700000300" "hbarAmount sampleParams = Finite 2"
    by (simp_all add: sample_defs)
  show ?thesis
    using execute_success_path [OF a b c d e f g h i j k l m]
    by (simp add: n)
qed

text \<open>
  Claim C4, as amended. For a network outside the two configured ones, \<open>resolveSwapPath\<close>
  and the base-URL lookup of \<open>ensureTokenAssociation\<close> fail with their
  unsupported-network errors, and the swap tool's router lookup makes the tool return the
  bare string \<open>Unsupported Hedera network for SaucerSwap router.\<close>; none of the three
  performs any action, so no network call is made.
\<close>

theorem unsupported_network_outcomes:
  assumes "ledger \<noteq> TESTNET"
    and "ledger \<noteq> MAINNET"
    and "ledgerId client = Some ledger"
  shows "resolveSwapPath w ledger token =
           Inl (Error ''Unsupported Hedera network for WHBAR mapping.'')
         \<and> ensureTokenAssociation w client ctx account token =
           ([], Inl (Error ''Unsupported Hedera network for Mirror Node lookup.''))
         \<and> execute w client ctx params =
           ([], Text ''Unsupported Hedera network for SaucerSwap router.'')"
  using assms
  by (simp add: resolveSwapPath_def ensureTokenAssociation_def execute_def execute_try_def
      requireClientLedger_def LedgerIdToWHbarID_def LedgerIdToBaseUrl_def
      LedgerIdToRouterContractID_def io_defs)

theorem unsupported_network_outcomes_witness:
  "resolveSwapPath sampleWorld PREVIEWNET ''0.0.5'' =
     Inl (Error ''Unsupported Hedera network for WHBAR mapping.'')
   \<and> ensureTokenAssociation sampleWorld \<lparr>ledgerId = Some PREVIEWNET\<rparr> sampleContext ''0.0.7'' ''0.0.5'' =
     ([], Inl (Error ''Unsupported Hedera network for Mirror Node lookup.''))
   \<and> execute sampleWorld \<lparr>ledgerId = Some PREVIEWNET\<rparr> sampleContext sampleParams =
     ([], Text ''Unsupported Hedera network for SaucerSwap router.'')"
  using unsupported_network_outcomes
    [of PREVIEWNET "\<lparr>ledgerId = Some PREVIEWNET\<rparr>" sampleWorld "''0.0.5''" sampleContext "''0.0.7''" sampleParams]
  by simp

text \<open>
  The claim as stated fails at the router lookup: on the preview network the \<^verbatim>\<open>try\<close>
  block of the tool completes normally with a bare string, so nothing is thrown and the
  tool's result is not the structured error.
\<close>

theorem router_lookup_returns_text_counterexample:
  "execute_try sampleWorld \<lparr>ledgerId = Some PREVIEWNET\<rparr> sampleContext sampleParams =
     ([], Inr (Text ''Unsupported Hedera network for SaucerSwap router.''))
   \<and> execute sampleWorld \<lparr>ledgerId = Some PREVIEWNET\<rparr> sampleContext sampleParams \<noteq>
     ([ConsoleError ''Unsupported Hedera network for SaucerSwap router.''],
      ErrorResult ''Unsupported Hedera network for SaucerSwap router.''
        ''Unsupported Hedera network for SaucerSwap router.'')"
  by (simp add: execute_def execute_try_def requireClientLedger_def LedgerIdToRouterContractID_def io_defs)

text \<open>
  Claim C5, as amended. When the token lookup succeeds and the declared type is present,
  not the empty string and not \<open>FUNGIBLE_COMMON\<close>, the tool returns the bare string
  \<open>This token is not a Fungible Token\<close>, and the token lookup is the only action of the
  run: no association check, no transaction.
\<close>

theorem execute_not_fungible:
  assumes "ledgerId client = Some ledger"
    and "LedgerIdToBaseUrl ledger = Some baseUrl"
    and "snd (fetchTokenInfoFromMirrorNode w baseUrl (tokenId params)) = Inr tokenInfo"
    and "type' tokenInfo = Some declaredType"
    and "declaredType \<noteq> []"
    and "declaredType \<noteq> ''FUNGIBLE_COMMON''"
  shows "execute w client ctx params =
           ([Fetch (baseUrl @ ''/tokens/'' @ tokenId params)],
            Text ''This token is not a Fungible Token'')"
proof -
  obtain routerId where r: "LedgerIdToRouterContractID ledger = Some routerId" "routerId \<noteq> []"
    using router_of_baseUrl[OF assms(2)] by blast
  have lookup: "fetchTokenInfoFromMirrorNode w baseUrl (tokenId params) =
      ([Fetch (baseUrl @ ''/tokens/'' @ tokenId params)], Inr tokenInfo)"
    by (simp add: prod_eq_iff fst_fetchTokenInfo assms(3))
  show ?thesis
    by (simp add: execute_def execute_try_def requireClientLedger_def assms(1,2,4,5,6) r lookup
        baseUrl_nonempty[OF assms(2)] io_defs)
qed

theorem execute_not_fungible_witness:
  "execute nftWorld sampleClient sampleContext sampleParams =
     ([Fetch (''https://testnet.mirrornode.hedera.com/api/v1'' @ ''/tokens/'' @ tokenId sampleParams)],
      Text ''This token is not a Fungible Token'')"
proof -
  have a: "ledgerId sampleClient = Some TESTNET"
    by (simp add: sampleClient_def)
  have b: "LedgerIdToBaseUrl TESTNET = Some ''https://testnet.mirrornode.hedera.com/api/v1''"
    by (simp add: LedgerIdToBaseUrl_def)
  have c: "snd (fetchTokenInfoFromMirrorNode nftWorld ''https://testnet.mirrornode.hedera.com/api/v1''
             (tokenId sampleParams)) =
           Inr \<lparr>type' = Some ''NON_FUNGIBLE_UNIQUE'', decimals = Number ''0''\<rparr>"
    by (simp add: fetchTokenInfoFromMirrorNode_def nftWorld_def sample_defs io_defs)
  have d: "type' \<lparr>type' = Some ''NON_FUNGIBLE_UNIQUE'', decimals = Number ''0''\<rparr> = Some ''NON_FUNGIBLE_UNIQUE''"
    by simp
  have e: "''NON_FUNGIBLE_UNIQUE'' \<noteq> []" "''NON_FUNGIBLE_UNIQUE'' \<noteq> ''FUNGIBLE_COMMON''"
    by simp_all
  show ?thesis
    using execute_not_fungible [OF a b c d e]
    by simp
qed

text \<open>
  The claim as stated fails when the declared type is the empty string: the type is present
  and is not the marker, yet the tool goes on to the association check and submits the swap.
\<close>

theorem empty_type_proceeds_counterexample:
  "fetchTokenInfoFromMirrorNode emptyTypeWorld ''https://testnet.mirrornode.hedera.com/api/v1'' ''0.0.5'' =
     ([Fetch ''https://testnet.mirrornode.hedera.com/api/v1/tokens/0.0.5''],
      Inr \<lparr>type' = Some [], decimals = Number ''8''\<rparr>)
   \<and> execute emptyTypeWorld sampleClient sampleContext sampleParams =
     ([Fetch ''https://testnet.mirrornode.hedera.com/api/v1/tokens/0.0.5'',
       Fetch ''https://testnet.mirrornode.hedera.com/api/v1/accounts/0.0.7/tokens?token.id=0.0.5&limit=1'',
       Fetch ''https://testnet.mirrornode.hedera.com/api/v1/accounts/0.0.7'',
       PopulateAccountEvmAddress ''0.0.7'',
       NewContractExecuteTransaction,
       HandleTransaction
         (ContractExecuteTransaction ''0.0.19264'' 400000 (Finite 2) ''swapExactETHForTokens''
            [Uint256 0, AddressArray [''evm:0.0.15058'', ''evm:0.0.5''], Address ''evm:0.0.7'',
             Uint256 1700000300])],
      HandlerOutcome (Executed sampleRaw ''done''))"
  by (simp add: run_defs emptyTypeWorld_def sample_defs)





section \<open>The token lookup\<close>

text \<open>
  What the token lookup does, case by case: it throws exactly when \<^verbatim>\<open>fetch\<close> rejects,
  the response is not \<^verbatim>\<open>ok\<close>, the body cannot be read, or the \<open>decimals\<close> field is
  absent or the empty string. The error for a response that is not \<^verbatim>\<open>ok\<close> carries the
  first 200 code units of the trimmed body.
\<close>

lemma fetchTokenInfo_not_ok:
  assumes "fetch w (baseUrl @ ''/tokens/'' @ token) = Inr response"
    and "\<not> ok response"
    and "body_text response = Inr body"
  shows "\<exists>details. snd (fetchTokenInfoFromMirrorNode w baseUrl token) =
           Inl (Error (''Mirror Node token lookup failed ('' @ show_nat (status response) @ '').'' @
                  (if details = [] then [] else '' '' @ details)))
         \<and> details = take 200 (trim body) \<and> length details \<le> 200"
  using assms
  by (simp add: fetchTokenInfoFromMirrorNode_def io_defs)

lemma fetchTokenInfo_ok:
  assumes "fetch w (baseUrl @ ''/tokens/'' @ token) = Inr response"
    and "ok response"
    and "json_TokenInfo response = Inr data"
  shows "snd (fetchTokenInfoFromMirrorNode w baseUrl token) =
           (if mn_decimals data = None \<or> mn_decimals data = Some []
            then Inl (Error ''Mirror Node token info missing numeric decimals.'')
            else Inr \<lparr>type' = mn_type data, decimals = Number (the (mn_decimals data))\<rparr>)"
  using assms
  by (auto simp: fetchTokenInfoFromMirrorNode_def io_defs split: option.splits)

text \<open>
  Claim C7 at the failing input. The response is successful and its \<open>decimals\<close> field is
  the string \<open>abc\<close>, which is not a numeral. \<open>fetchTokenInfoFromMirrorNode\<close> does not
  reject it: it returns a descriptor whose \<open>decimals\<close> is \<^verbatim>\<open>Number("abc")\<close>.
\<close>

theorem fetchTokenInfo_returns_non_numeric_decimals:
  "fetchTokenInfoFromMirrorNode nonNumericDecimalsWorld
     ''https://testnet.mirrornode.hedera.com/api/v1'' ''0.0.5'' =
     ([Fetch ''https://testnet.mirrornode.hedera.com/api/v1/tokens/0.0.5''],
      Inr \<lparr>type' = Some ''FUNGIBLE_COMMON'', decimals = Number ''abc''\<rparr>)"
  by (simp add: fetchTokenInfoFromMirrorNode_def nonNumericDecimalsWorld_def sample_defs io_defs)

section \<open>A failed association inside the tool\<close>

text \<open>
  Claim C9. When association is required, the mode is not \<open>RETURN_BYTES\<close>, and the handler
  reports an executed association whose status is not \<open>SUCCESS\<close>,
  \<open>ensureTokenAssociation\<close> throws the error that carries that status (the spec's
  \<open>AssociationFailedError\<close>). Inside the tool the run ends there with the structured
  error: no swap transaction is constructed or handed to the handler.
\<close>

theorem association_failure_stops_swap:
  assumes "ledgerId client = Some ledger"
    and "LedgerIdToBaseUrl ledger = Some baseUrl"
    and "snd (mirrorNodeAccountHasToken w baseUrl account (tokenId params)) = Inr False"
    and "snd (mirrorNodeAccountMaxAutoAssociations w baseUrl account) = Inr maxAutoAssociations"
    and "maxAutoAssociations \<noteq> Finite (- 1)"
    and "mode ctx \<noteq> Some RETURN_BYTES"
    and "settersError w (associateTx account (tokenId params)) = None"
    and "handleTransaction w (associateTx account (tokenId params)) client ctx
           (Some (associationMessage (tokenId params) account)) = Inr (Executed raw humanMessage)"
    and "tx_status raw \<noteq> ''SUCCESS''"
    and "snd (fetchTokenInfoFromMirrorNode w baseUrl (tokenId params)) = Inr tokenInfo"
    and "type' tokenInfo = None \<or> type' tokenInfo = Some ''FUNGIBLE_COMMON''"
    and "resolveAccount w (recipientAccountId params) ctx client = Inr account"
  shows "ensureTokenAssociation w client ctx account (tokenId params) =
           ([Fetch (accountTokensUrl baseUrl account (tokenId params)),
             Fetch (baseUrl @ ''/accounts/'' @ account),
             NewTokenAssociateTransaction,
             HandleTransaction (associateTx account (tokenId params))],
            Inl (Error (''Token association failed: '' @ tx_status raw)))
         \<and> execute w client ctx params =
           ([Fetch (baseUrl @ ''/tokens/'' @ tokenId params),
             Fetch (accountTokensUrl baseUrl account (tokenId params)),
             Fetch (baseUrl @ ''/accounts/'' @ account),
             NewTokenAssociateTransaction,
             HandleTransaction (associateTx account (tokenId params)),
             ConsoleError (''Token association failed: '' @ tx_status raw)],
            ErrorResult (''Token association failed: '' @ tx_status raw)
              (''Token association failed: '' @ tx_status raw))
         \<and> \<not> list_ex is_swap_event (fst (execute w client ctx params))"
proof -
  obtain routerId where r: "LedgerIdToRouterContractID ledger = Some routerId"
    using router_of_baseUrl[OF assms(2)] by blast
  have guard: "ensureTokenAssociation w client ctx account (tokenId params) =
           ([Fetch (accountTokensUrl baseUrl account (tokenId params)),
             Fetch (baseUrl @ ''/accounts/'' @ account),
             NewTokenAssociateTransaction,
             HandleTransaction (associateTx account (tokenId params))],
            Inl (Error (''Token association failed: '' @ tx_status raw)))"
    by (rule ensureTokenAssociation_failed_status [OF assms(1-9)])
  have lookup: "fetchTokenInfoFromMirrorNode w baseUrl (tokenId params) =
      ([Fetch (baseUrl @ ''/tokens/'' @ tokenId params)], Inr tokenInfo)"
    by (simp add: prod_eq_iff fst_fetchTokenInfo assms(10))
  have body: "execute_try w client ctx params =
      ([Fetch (baseUrl @ ''/tokens/'' @ tokenId params)] @
       [Fetch (accountTokensUrl baseUrl account (tokenId params)),
        Fetch (baseUrl @ ''/accounts/'' @ account),
        NewTokenAssociateTransaction,
        HandleTransaction (associateTx account (tokenId params))],
       Inl (Error (''Token association failed: '' @ tx_status raw)))"
    by (rule execute_try_after_guard [OF assms(1) r assms(2) lookup assms(11,12) guard])
  have run: "execute w client ctx params =
           ([Fetch (baseUrl @ ''/tokens/'' @ tokenId params),
             Fetch (accountTokensUrl baseUrl account (tokenId params)),
             Fetch (baseUrl @ ''/accounts/'' @ account),
             NewTokenAssociateTransaction,
             HandleTransaction (associateTx account (tokenId params)),
             ConsoleError (''Token association failed: '' @ tx_status raw)],
            ErrorResult (''Token association failed: '' @ tx_status raw)
              (''Token association failed: '' @ tx_status raw))"
    by (simp add: execute_def body catch_message_def)
  show ?thesis
    by (simp add: guard run associateTx_def)
qed

theorem association_failure_stops_swap_witness:
  "ensureTokenAssociation failingAssociationWorld sampleClient sampleContext ''0.0.7'' (tokenId sampleParams) =
     ([Fetch (accountTokensUrl ''https://testnet.mirrornode.hedera.com/api/v1'' ''0.0.7'' (tokenId sampleParams)),
       Fetch (''https://testnet.mirrornode.hedera.com/api/v1'' @ ''/accounts/'' @ ''0.0.7''),
       NewTokenAssociateTransaction,
       HandleTransaction (associateTx ''0.0.7'' (tokenId sampleParams))],
      Inl (Error (''Token association failed: '' @ ''TOKEN_NOT_FOUND'')))
   \<and> execute failingAssociationWorld sampleClient sampleContext sampleParams =
     ([Fetch (''https://testnet.mirrornode.hedera.com/api/v1'' @ ''/tokens/'' @ tokenId sampleParams),
       Fetch (accountTokensUrl ''https://testnet.mirrornode.hedera.com/api/v1'' ''0.0.7'' (tokenId sampleParams)),
       Fetch (''https://testnet.mirrornode.hedera.com/api/v1'' @ ''/accounts/'' @ ''0.0.7''),
       NewTokenAssociateTransaction,
       HandleTransaction (associateTx ''0.0.7'' (tokenId sampleParams)),
       ConsoleError (''Token association failed: '' @ ''TOKEN_NOT_FOUND'')],
      ErrorResult (''Token association failed: '' @ ''TOKEN_NOT_FOUND'')
        (''Token association failed: '' @ ''TOKEN_NOT_FOUND''))
   \<and> \<not> list_ex is_swap_event (fst (execute failingAssociationWorld sampleClient sampleContext sampleParams))"
proof -
  have a: "ledgerId sampleClient = Some TESTNET"
    by (simp add: sampleClient_def)
  have b: "LedgerIdToBaseUrl TESTNET = Some ''https://testnet.mirrornode.hedera.com/api/v1''"
    by (simp add: LedgerIdToBaseUrl_def)
  have c: "snd (mirrorNodeAccountHasToken failingAssociationWorld
                  ''https://testnet.mirrornode.hedera.com/api/v1'' ''0.0.7'' (tokenId sampleParams)) = Inr False"
    by (simp add: lookup_defs sample_defs failingAssociationWorld_def unassociatedResponse_def io_defs)
  have d: "snd (mirrorNodeAccountMaxAutoAssociations failingAssociationWorld
                  ''https://testnet.mirrornode.hedera.com/api/v1'' ''0.0.7'') = Inr (Finite 0)"
    by (simp add: lookup_defs sample_defs failingAssociationWorld_def unassociatedResponse_def io_defs)
  have e: "Finite 0 \<noteq> Finite (- 1)"
    by simp
  have f: "mode sampleContext \<noteq> Some RETURN_BYTES"
    by (simp add: sampleContext_def)
  have g: "settersError failingAssociationWorld (associateTx ''0.0.7'' (tokenId sampleParams)) = None"
    by (simp add: failingAssociationWorld_def sampleWorld_def)
  have h: "handleTransaction failingAssociationWorld (associateTx ''0.0.7'' (tokenId sampleParams))
             sampleClient sampleContext (Some (associationMessage (tokenId sampleParams) ''0.0.7'')) =
           Inr (Executed failedRaw ''failed'')"
    by (simp add: failingAssociationWorld_def sampleWorld_def)
  have i: "tx_status failedRaw \<noteq> ''SUCCESS''"
    by (simp add: failedRaw_def)
  have j: "snd (fetchTokenInfoFromMirrorNode failingAssociationWorld
             ''https://testnet.mirrornode.hedera.com/api/v1'' (tokenId sampleParams)) =
           Inr \<lparr>type' = Some ''FUNGIBLE_COMMON'', decimals = Number ''8''\<rparr>"
    by (simp add: fetchTokenInfoFromMirrorNode_def failingAssociationWorld_def unassociatedResponse_def
        sample_defs io_defs)
  have k: "type' \<lparr>type' = Some ''FUNGIBLE_COMMON'', decimals = Number ''8''\<rparr> = None
           \<or> type' \<lparr>type' = Some ''FUNGIBLE_COMMON'', decimals = Number ''8''\<rparr> = Some ''FUNGIBLE_COMMON''"
    by simp
  have l: "resolveAccount failingAssociationWorld (recipientAccountId sampleParams) sampleContext sampleClient
           = Inr ''0.0.7''"
    by (simp add: failingAssociationWorld_def sample_defs)
  have m: "tx_status failedRaw = ''TOKEN_NOT_FOUND''"
    by (simp add: failedRaw_def)
  show ?thesis
    using association_failure_stops_swap [OF a b c d e f g h i j k l]
    by (simp add: m associateTx_def)
qed

end
